theory Spec2Isabelle
  imports Main
begin

section \<open>The MQTT status agent of my_service.py\<close>

text \<open>
  The program is a thin layer over two libraries (paho-mqtt and typer) and the Python
  runtime. Every call that leaves the program (a log line, a print, a call of the broker
  client, a sleep) is recorded as an \<open>event\<close>; a method of the class is a function from
  the object's fields to the events it issues, in order, together with the updated fields
  when it assigns one and the way it ends when it can end by raising.
\<close>

subsection \<open>Events, outcomes\<close>

datatype level = DEBUG | INFO | ERROR

datatype event =
    Log level string                 \<comment> \<open>logging.debug / info / error with the formatted message\<close>
  | Print string                     \<comment> \<open>print\<close>
  | Set_level level                  \<comment> \<open>logging.getLogger().setLevel\<close>
  | Signal_register                  \<comment> \<open>signal.signal(signal.SIGINT, self.signal_handler)\<close>
  | Client_new                       \<comment> \<open>mqtt.Client(callback_api_version=VERSION2)\<close>
  | On_connect_set                   \<comment> \<open>self.client.on_connect = self.on_connect\<close>
  | On_disconnect_set                \<comment> \<open>self.client.on_disconnect = self.on_disconnect\<close>
  | Username_pw_set string string    \<comment> \<open>client.username_pw_set(user, password)\<close>
  | Will_set string string nat bool  \<comment> \<open>client.will_set(topic, payload, qos, retain)\<close>
  | Publish string string nat bool   \<comment> \<open>client.publish(topic, payload, qos, retain)\<close>
  | Connect string int int           \<comment> \<open>client.connect(host, port, keepalive)\<close>
  | Loop_start                       \<comment> \<open>client.loop_start()\<close>
  | Loop_stop                        \<comment> \<open>client.loop_stop()\<close>
  | Disconnect                       \<comment> \<open>client.disconnect()\<close>
  | Sleep int                        \<comment> \<open>time.sleep(seconds)\<close>
  | Usage_error                      \<comment> \<open>typer rejects an option value\<close>

text \<open>
  How a call ends: it returns, it raises \<open>SystemExit\<close> (\<open>sys.exit(code)\<close>), it raises
  \<open>typer.Exit\<close>, another exception leaves it, or (for the endless loop of \<open>run\<close>) it is
  still running when the observed inputs are used up.
\<close>

datatype outcome = Returned | SystemExit int | TyperExit int | Uncaught string | Pending

subsection \<open>Formatting integers\<close>

text \<open>Python's \<open>str\<close> of an \<open>int\<close>, as an f-string renders it: decimal digits, a minus sign
  when negative.\<close>

fun str_nat :: "nat \<Rightarrow> string" where
  "str_nat n =
     (if n < 10 then [char_of (48 + n)]
      else str_nat (n div 10) @ [char_of (48 + n mod 10)])"

declare str_nat.simps [simp del]

definition str_int :: "int \<Rightarrow> string" where
  "str_int i = (if i < 0 then CHR ''-'' # str_nat (nat (- i)) else str_nat (nat i))"

subsection \<open>The class MqttClient\<close>

record MqttClient =
  mqtt_host :: string
  mqtt_port :: int
  mqtt_user :: string
  mqtt_password :: string
  discovery_topic_prefix :: string
  topic_prefix :: string
  update_interval :: int
  counter :: int

text \<open>The reason code the broker client hands to \<open>on_connect\<close>: the program compares it
  with 0 and formats it into log lines, nothing else.\<close>

record reason_code =
  rc_value :: int
  rc_str :: string

text \<open>\<open>p.endswith('/')\<close>, and lines 65-68 and 71-74 of the constructor: one test, and
  \<open>p[:-1]\<close> when it succeeds.\<close>

definition endswith_slash :: "string \<Rightarrow> bool" where
  "endswith_slash p = (p \<noteq> [] \<and> last p = CHR ''/'')"

definition strip_slash :: "string \<Rightarrow> string" where
  "strip_slash p = (if endswith_slash p then butlast p else p)"

definition MqttClient_init ::
  "string \<Rightarrow> int \<Rightarrow> string \<Rightarrow> string \<Rightarrow> string \<Rightarrow> string \<Rightarrow> int \<Rightarrow> MqttClient \<times> event list"
where
  "MqttClient_init host port user password dprefix tprefix interval =
     (let self = \<lparr> mqtt_host = host, mqtt_port = port, mqtt_user = user,
                   mqtt_password = password,
                   discovery_topic_prefix = strip_slash dprefix,
                   topic_prefix = strip_slash tprefix,
                   update_interval = interval,
                   counter = 0 \<rparr>
      in (self,
          [Signal_register, Client_new, On_connect_set, On_disconnect_set,
           Username_pw_set (mqtt_user self) (mqtt_password self),
           Will_set (topic_prefix self @ ''/status'') ''offline'' 0 True]))"

definition publish_discovery :: "MqttClient \<Rightarrow> event list" where
  "publish_discovery self = [Log DEBUG ''--> publish_discovery'']"

definition remove_discovery :: "MqttClient \<Rightarrow> event list" where
  "remove_discovery self = [Log DEBUG ''--> remove_discovery'']"

text \<open>\<open>on_connect(self, client, userdata, flags, rc, properties)\<close>: the arguments other
  than \<open>rc\<close> are only formatted into the second debug line, so they are taken as the
  text they format to.\<close>

definition on_connect ::
  "MqttClient \<Rightarrow> string \<Rightarrow> string \<Rightarrow> string \<Rightarrow> reason_code \<Rightarrow> string \<Rightarrow> event list \<times> outcome"
where
  "on_connect self client userdata flags rc properties =
     (let pre = [Log DEBUG ''--> on_connect'',
                 Log DEBUG (''all: '' @ client @ '' - '' @ userdata @ '' - '' @ flags @
                            '' - '' @ rc_str rc @ '' - '' @ properties)]
      in if rc_value rc \<noteq> 0 then
           (pre @ [Log ERROR (''Connection failed with reason code: '' @ rc_str rc)],
            SystemExit 1)
         else
           (pre @ [Log INFO (''Connection successful with reason code: '' @ rc_str rc),
                   Log DEBUG ''Initial publishing of status'',
                   Publish (topic_prefix self @ ''/status'') ''online'' 0 True,
                   Log DEBUG ''Initial publishing of discovery'']
                @ publish_discovery self,
            Returned))"

definition on_disconnect :: "MqttClient \<Rightarrow> string \<Rightarrow> string \<Rightarrow> reason_code \<Rightarrow> event list" where
  "on_disconnect self client userdata rc =
     [Log DEBUG (''--> on_disconnected - reason code: '' @ rc_str rc), Loop_stop]"

definition regular_update :: "MqttClient \<Rightarrow> MqttClient \<times> event list" where
  "regular_update self =
     (let self' = self\<lparr>counter := counter self + 1\<rparr>
      in (self',
          [Log INFO ''--> regular_update'',
           Publish (topic_prefix self' @ ''/status'')
                   (''update:'' @ str_int (counter self')) 0 True]))"

definition signal_handler :: "MqttClient \<Rightarrow> int \<Rightarrow> string \<Rightarrow> event list \<times> outcome" where
  "signal_handler self sig frame =
     ([Log DEBUG ''received SIGINT'',
       Publish (topic_prefix self @ ''/status'') ''goodbye'' 0 True,
       Disconnect,
       Log INFO ''--> clean exit''],
      SystemExit 0)"

subsection \<open>The loop of run\<close>

text \<open>
  What the foreground thread meets at the top of an iteration: the value
  \<open>threading.active_count()\<close> returns there, or an interrupt (SIGINT), whose handler the
  runtime runs in the foreground thread; an exception the handler raises leaves \<open>run\<close>.
  The loop has no exit of its own, so a finite list of observations that ends before an
  exit leaves it \<open>Pending\<close>.
\<close>

datatype obs = Active_count nat | Sigint

definition SIGINT :: int where
  "SIGINT = 2"

fun run_loop :: "MqttClient \<Rightarrow> obs list \<Rightarrow> MqttClient \<times> event list \<times> outcome" where
  "run_loop self [] = (self, [], Pending)"
| "run_loop self (Sigint # os) =
     (case signal_handler self SIGINT ''frame'' of
        (ev, Returned) \<Rightarrow> (case run_loop self os of (s, ev', out) \<Rightarrow> (s, ev @ ev', out))
      | (ev, out) \<Rightarrow> (self, ev, out))"
| "run_loop self (Active_count n # os) =
     (if n = 1 then
        (self,
         [Log ERROR ''Only one thread running, should be at least two -> exiting.''],
         SystemExit 1)
      else
        (case regular_update self of (self', ev) \<Rightarrow>
           (case run_loop self' os of (s, ev', out) \<Rightarrow>
              (s,
               [Log DEBUG ''in loop: before sleep''] @ ev @
               [Sleep (update_interval self'), Log DEBUG ''in loop: after sleep''] @ ev',
               out))))"

definition run_settings :: "MqttClient \<Rightarrow> event list" where
  "run_settings self =
     [Log INFO ''### SETTINGS: Start  #################################'',
      Log INFO (''Connection:              '' @ mqtt_user self @ ''@'' @ mqtt_host self @
                '':'' @ str_int (mqtt_port self)),
      Log INFO (''Interval (s):            '' @ str_int (update_interval self)),
      Log INFO (''Discovery topic prefix:  '' @ discovery_topic_prefix self),
      Log INFO (''Topic prefix:            '' @ topic_prefix self),
      Log INFO ''### SETTINGS: End    #################################'']"

text \<open>\<open>client.connect\<close> either returns or raises (the name of the exception is the
  argument \<open>cerr\<close>); the program does not catch it.\<close>

definition run ::
  "MqttClient \<Rightarrow> string option \<Rightarrow> obs list \<Rightarrow> MqttClient \<times> event list \<times> outcome"
where
  "run self cerr os =
     (let start = run_settings self @
                  [Connect (mqtt_host self) (mqtt_port self) 60]
      in case cerr of
           Some e \<Rightarrow> (self, start, Uncaught e)
         | None \<Rightarrow>
             (case run_loop self os of (s, ev, out) \<Rightarrow>
                (s, start @ [Loop_start, Log DEBUG ''before loop''] @ ev, out)))"

subsection \<open>The command line\<close>

definition version :: string where
  "version = ''0.1.0''"

definition version_callback :: "bool option \<Rightarrow> event list \<times> outcome" where
  "version_callback v =
     (if v = Some True then ([Print (''My Service Start Version: '' @ version)], TyperExit 0)
      else ([], Returned))"

definition main ::
  "string \<Rightarrow> int \<Rightarrow> string \<Rightarrow> string \<Rightarrow> string \<Rightarrow> string \<Rightarrow> int \<Rightarrow> bool \<Rightarrow>
   string option \<Rightarrow> obs list \<Rightarrow> event list \<times> outcome"
where
  "main host port user password dprefix tprefix interval debug cerr os =
     (case MqttClient_init host port user password dprefix tprefix interval of
        (mc, ev1) \<Rightarrow>
          (case run mc cerr os of
             (mc', ev2, out) \<Rightarrow>
               ([Set_level (if debug then DEBUG else INFO)] @ ev1 @ ev2, out)))"

text \<open>
  The options as typer receives them: text for the two integer options, which typer
  converts (the conversion \<open>conv\<close> is typer's and is a parameter here), and the
  \<open>--version\<close> flag. The flag is declared \<open>is_eager=True\<close> with \<open>version_callback\<close>: its
  callback runs before the other options are converted and before \<open>main\<close> is called;
  \<open>typer.Exit\<close> ends the process with the code it carries.
\<close>

record options =
  opt_mqtt_host :: string
  opt_mqtt_port :: string
  opt_mqtt_user :: string
  opt_mqtt_password :: string
  opt_discovery_topic_prefix :: string
  opt_topic_prefix :: string
  opt_update_interval :: string
  opt_debug :: bool
  opt_version :: "bool option"

definition typer_run ::
  "(string \<Rightarrow> int option) \<Rightarrow> options \<Rightarrow> string option \<Rightarrow> obs list \<Rightarrow> event list \<times> outcome"
where
  "typer_run conv opts cerr os =
     (case version_callback (opt_version opts) of
        (ev, TyperExit c) \<Rightarrow> (ev, SystemExit c)
      | (ev, _) \<Rightarrow>
          (case (conv (opt_mqtt_port opts), conv (opt_update_interval opts)) of
             (Some port, Some interval) \<Rightarrow>
               (case main (opt_mqtt_host opts) port (opt_mqtt_user opts)
                          (opt_mqtt_password opts) (opt_discovery_topic_prefix opts)
                          (opt_topic_prefix opts) interval (opt_debug opts) cerr os of
                  (ev', out) \<Rightarrow> (ev @ ev', out))
           | _ \<Rightarrow> (ev @ [Usage_error], SystemExit 2)))"

subsection \<open>Reading a trace\<close>

text \<open>The messages handed to the broker client, in order: every publish, and the last
  will, as (topic, payload, qos, retain).\<close>

fun publishes :: "event list \<Rightarrow> (string \<times> string \<times> nat \<times> bool) list" where
  "publishes [] = []"
| "publishes (Publish t p q r # es) = (t, p, q, r) # publishes es"
| "publishes (e # es) = publishes es"

fun wills :: "event list \<Rightarrow> (string \<times> string \<times> nat \<times> bool) list" where
  "wills [] = []"
| "wills (Will_set t p q r # es) = (t, p, q, r) # wills es"
| "wills (e # es) = wills es"

text \<open>Both kinds together, in the order of the trace.\<close>

fun messages :: "event list \<Rightarrow> (string \<times> string \<times> nat \<times> bool) list" where
  "messages [] = []"
| "messages (Publish t p q r # es) = (t, p, q, r) # messages es"
| "messages (Will_set t p q r # es) = (t, p, q, r) # messages es"
| "messages (e # es) = messages es"

fun is_connect :: "event \<Rightarrow> bool" where
  "is_connect (Connect h p k) = True"
| "is_connect e = False"

text \<open>The object after \<open>n\<close> calls of \<open>regular_update\<close>.\<close>

fun after_updates :: "nat \<Rightarrow> MqttClient \<Rightarrow> MqttClient" where
  "after_updates 0 self = self"
| "after_updates (Suc n) self = fst (regular_update (after_updates n self))"

text \<open>Reading a string of decimal digits back, to say what \<open>str_nat\<close> writes.\<close>

definition decimal :: "string \<Rightarrow> nat" where
  "decimal ds = foldl (\<lambda>a c. 10 * a + (of_char c - 48)) 0 ds"

subsection \<open>The two threads\<close>

text \<open>
  \<open>loop_start\<close> starts the broker client's thread, which calls \<open>on_connect\<close> when the
  broker answers. The program has no lock, event or join between that thread and the
  foreground loop, so from \<open>loop_start\<close> on the events of a run are some interleaving
  of what the foreground thread does (\<open>run\<close>, from its debug line before the loop) and
  of the events \<open>bg\<close> of the callback.
\<close>

definition interleavings :: "MqttClient \<Rightarrow> obs list \<Rightarrow> event list \<Rightarrow> event list set" where
  "interleavings self os bg =
     (\<lambda>t. run_settings self @
           [Connect (mqtt_host self) (mqtt_port self) 60, Loop_start] @ t) `
       shuffles (Log DEBUG ''before loop'' # fst (snd (run_loop self os))) bg"

definition is_update_payload :: "string \<Rightarrow> bool" where
  "is_update_payload p = (take 7 p = ''update:'')"

text \<open>In a trace, the message \<open>m\<close> is published exactly once, and no periodic update is
  published before it.\<close>

definition once_before_updates :: "string \<times> string \<times> nat \<times> bool \<Rightarrow> event list \<Rightarrow> bool" where
  "once_before_updates m tr =
     (length (filter (\<lambda>x. x = m) (publishes tr)) = 1 \<and>
      list_all (\<lambda>x. \<not> is_update_payload (fst (snd x)))
        (takeWhile (\<lambda>x. x \<noteq> m) (publishes tr)))"

subsection \<open>The process\<close>



section \<open>Properties\<close>

subsection \<open>Topic prefixes\<close>

lemma strip_slash_single: "strip_slash (p @ ''/'') = p"
  by (simp add: strip_slash_def endswith_slash_def)

text \<open>
  C1. The constructor is meant to leave no trailing slash on the stored prefixes (its
  own comments say so), and a prefix ending in several slashes should lose all of them.
  The code removes one character only: from the prefix \<^verbatim>\<open>home//\<close> it stores
  \<^verbatim>\<open>home/\<close>, which still ends with a slash, and normalising the stored prefix
  again changes it.
\<close>

theorem init_double_slash_keeps_slash:
  "topic_prefix (fst (MqttClient_init ''h'' 1883 ''u'' ''p'' ''disc//'' ''home//'' 300)) = ''home/''
   \<and> discovery_topic_prefix
        (fst (MqttClient_init ''h'' 1883 ''u'' ''p'' ''disc//'' ''home//'' 300)) = ''disc/''
   \<and> endswith_slash
        (topic_prefix (fst (MqttClient_init ''h'' 1883 ''u'' ''p'' ''disc//'' ''home//'' 300)))
   \<and> strip_slash (strip_slash ''home//'') \<noteq> strip_slash ''home//''"
  by (simp add: MqttClient_init_def strip_slash_def endswith_slash_def)

lemma init_fields:
  "topic_prefix (fst (MqttClient_init h p u pw d t i)) = strip_slash t"
  "discovery_topic_prefix (fst (MqttClient_init h p u pw d t i)) = strip_slash d"
  "counter (fst (MqttClient_init h p u pw d t i)) = 0"
  "update_interval (fst (MqttClient_init h p u pw d t i)) = i"
  by (simp_all add: MqttClient_init_def)

subsection \<open>The update counter\<close>

lemma str_int_nat: "str_int (int n) = str_nat n"
  by (simp add: str_int_def)

lemma decimal_snoc: "decimal (ds @ [c]) = 10 * decimal ds + (of_char c - 48)"
  by (simp add: decimal_def)

lemma decimal_str_nat: "decimal (str_nat n) = n"
proof (induction n rule: str_nat.induct)
  case (1 n)
  show ?case
  proof (cases "n < 10")
    case True
    then show ?thesis
      by (subst str_nat.simps) (simp add: decimal_def)
  next
    case False
    have "n mod 10 < 10" by simp
    then have d: "of_char (char_of (48 + n mod 10) :: char) = 48 + n mod 10"
      by (simp add: of_char_of take_bit_nat_eq_self)
    from False 1 show ?thesis
      by (subst str_nat.simps) (simp add: decimal_snoc d del: of_char_of)
  qed
qed

lemma after_updates_eq: "after_updates n self = self\<lparr>counter := counter self + int n\<rparr>"
  by (induction n) (simp_all add: regular_update_def Let_def add.assoc)

text \<open>
  C2. On the object the constructor builds, the counter is 0; the call of
  \<open>regular_update\<close> that follows \<open>n\<close> earlier calls (the call number \<open>n + 1\<close>) logs one
  line and publishes the payload \<open>update:\<close> followed by the decimal digits of \<open>n + 1\<close> to
  the stored topic prefix followed by \<open>/status\<close>, with QoS 0 and retained; it leaves the
  counter at \<open>n + 1\<close>, one more than before the call. No other method assigns the counter.
\<close>

theorem regular_update_nth:
  "(let self = fst (MqttClient_init h p u pw d t i) in
      counter self = 0
      \<and> regular_update (after_updates n self) =
          (self\<lparr>counter := int (Suc n)\<rparr>,
           [Log INFO ''--> regular_update'',
            Publish (topic_prefix self @ ''/status'') (''update:'' @ str_nat (Suc n)) 0 True])
      \<and> after_updates (Suc n) self = self\<lparr>counter := int (Suc n)\<rparr>
      \<and> counter (after_updates (Suc n) self) = counter (after_updates n self) + 1)"
proof -
  define self where "self = fst (MqttClient_init h p u pw d t i)"
  have c0: "counter self = 0"
    by (simp add: self_def init_fields)
  have st: "after_updates k self = self\<lparr>counter := int k\<rparr>" for k
    by (simp add: after_updates_eq c0)
  have "int n + 1 = int (Suc n)" by simp
  then have s: "str_int (int n + 1) = str_nat (Suc n)"
    by (simp only: str_int_nat)
  have ru: "regular_update (after_updates n self) =
          (self\<lparr>counter := int (Suc n)\<rparr>,
           [Log INFO ''--> regular_update'',
            Publish (topic_prefix self @ ''/status'') (''update:'' @ str_nat (Suc n)) 0 True])"
    by (simp add: st regular_update_def Let_def s)
  have "counter (after_updates (Suc n) self) = counter (after_updates n self) + 1"
    by (simp add: st)
  with c0 ru st [of "Suc n"] show ?thesis
    unfolding self_def [symmetric] Let_def by simp
qed

lemma regular_update_twelfth:
  "snd (regular_update (after_updates 11
          (fst (MqttClient_init ''h'' 1883 ''u'' ''p'' ''disc'' ''home/'' 300)))) =
     [Log INFO ''--> regular_update'', Publish ''home/status'' ''update:12'' 0 True]"
  by code_simp

subsection \<open>The connect callback\<close>








text \<open>
  C5. Called with reason code 0, \<open>on_connect\<close> publishes exactly one message: \<open>online\<close> to
  the stored topic prefix followed by \<open>/status\<close>, QoS 0, retained; then it calls
  \<open>publish_discovery\<close>, which writes one debug line and nothing else, and returns.
\<close>

theorem on_connect_success:
  "rc_value rc = 0 \<Longrightarrow>
   on_connect self client userdata flags rc properties =
     ([Log DEBUG ''--> on_connect'',
       Log DEBUG (''all: '' @ client @ '' - '' @ userdata @ '' - '' @ flags @
                  '' - '' @ rc_str rc @ '' - '' @ properties),
       Log INFO (''Connection successful with reason code: '' @ rc_str rc),
       Log DEBUG ''Initial publishing of status'',
       Publish (topic_prefix self @ ''/status'') ''online'' 0 True,
       Log DEBUG ''Initial publishing of discovery''] @ publish_discovery self,
      Returned)
   \<and> publishes (fst (on_connect self client userdata flags rc properties)) =
       [(topic_prefix self @ ''/status'', ''online'', 0, True)]
   \<and> publish_discovery self = [Log DEBUG ''--> publish_discovery'']
   \<and> messages (publish_discovery self) = []"
  by (simp add: on_connect_def publish_discovery_def)

theorem on_connect_success_witness:
  "rc_value \<lparr>rc_value = 0, rc_str = ''Success''\<rparr> = 0
   \<and> publishes (fst (on_connect (fst (MqttClient_init ''h'' 1883 ''u'' ''p'' ''disc'' ''home'' 300))
        ''client'' ''None'' ''flags'' \<lparr>rc_value = 0, rc_str = ''Success''\<rparr> ''[]'')) =
       [(''home/status'', ''online'', 0, True)]
   \<and> snd (on_connect (fst (MqttClient_init ''h'' 1883 ''u'' ''p'' ''disc'' ''home'' 300))
        ''client'' ''None'' ''flags'' \<lparr>rc_value = 0, rc_str = ''Success''\<rparr> ''[]'') = Returned"
  using on_connect_success [of "\<lparr>rc_value = 0, rc_str = ''Success''\<rparr>"
      "fst (MqttClient_init ''h'' 1883 ''u'' ''p'' ''disc'' ''home'' 300)"
      "''client''" "''None''" "''flags''" "''[]''"]
  by (simp add: init_fields strip_slash_def endswith_slash_def)

subsection \<open>The loop and the interrupt\<close>

lemma run_loop_append:
  "run_loop self (xs @ ys) =
     (case run_loop self xs of
        (s, ev, out) \<Rightarrow>
          if out = Pending
          then (case run_loop s ys of (s', ev', out') \<Rightarrow> (s', ev @ ev', out'))
          else (s, ev, out))"
proof (induction xs arbitrary: self)
  case Nil
  show ?case by (simp split: prod.splits)
next
  case (Cons x xs)
  show ?case
  proof (cases x)
    case (Active_count n)
    then show ?thesis
      by (simp add: Cons.IH split: prod.splits)
  next
    case Sigint
    then show ?thesis
      by (simp add: signal_handler_def)
  qed
qed

text \<open>
  C3, as the claim states it: the \<open>goodbye\<close> message is published not retained. The code
  passes \<open>retain=True\<close>.
\<close>

theorem signal_handler_retains_goodbye:
  "publishes (fst (signal_handler (fst (MqttClient_init ''h'' 1883 ''u'' ''p'' ''disc'' ''home'' 300))
                    SIGINT ''frame'')) = [(''home/status'', ''goodbye'', 0, True)]
   \<and> publishes (fst (signal_handler (fst (MqttClient_init ''h'' 1883 ''u'' ''p'' ''disc'' ''home'' 300))
                    SIGINT ''frame'')) \<noteq> [(''home/status'', ''goodbye'', 0, False)]"
  by (simp add: signal_handler_def init_fields strip_slash_def endswith_slash_def)

text \<open>
  C3, amended. The interrupt handler publishes exactly one message, \<open>goodbye\<close> to the
  stored topic prefix followed by \<open>/status\<close> with QoS 0 and retained, then disconnects
  the client, then ends by \<open>sys.exit(0)\<close>. When the interrupt reaches the loop of \<open>run\<close>
  (still running after the observations \<open>before\<close>), the loop ends there with exit code
  0: whatever would have followed (\<open>after\<close>) adds no event, so no further update.
\<close>

theorem signal_handler_goodbye:
  "signal_handler self sig frame =
     ([Log DEBUG ''received SIGINT'',
       Publish (topic_prefix self @ ''/status'') ''goodbye'' 0 True,
       Disconnect,
       Log INFO ''--> clean exit''],
      SystemExit 0)
   \<and> publishes (fst (signal_handler self sig frame)) =
        [(topic_prefix self @ ''/status'', ''goodbye'', 0, True)]
   \<and> (run_loop self before = (s, ev, Pending) \<longrightarrow>
        run_loop self (before @ Sigint # after) =
          (s, ev @ fst (signal_handler s SIGINT ''frame''), SystemExit 0))"
  by (simp add: signal_handler_def run_loop_append)

theorem signal_handler_goodbye_witness:
  "run_loop (fst (MqttClient_init ''h'' 1883 ''u'' ''p'' ''disc'' ''home'' 1)) [Active_count 2] =
     (fst (MqttClient_init ''h'' 1883 ''u'' ''p'' ''disc'' ''home'' 1)\<lparr>counter := 1\<rparr>,
      [Log DEBUG ''in loop: before sleep'', Log INFO ''--> regular_update'',
       Publish ''home/status'' ''update:1'' 0 True, Sleep 1,
       Log DEBUG ''in loop: after sleep''], Pending)
   \<and> run_loop (fst (MqttClient_init ''h'' 1883 ''u'' ''p'' ''disc'' ''home'' 1))
        ([Active_count 2] @ Sigint # [Active_count 2, Active_count 2]) =
     (fst (MqttClient_init ''h'' 1883 ''u'' ''p'' ''disc'' ''home'' 1)\<lparr>counter := 1\<rparr>,
      [Log DEBUG ''in loop: before sleep'', Log INFO ''--> regular_update'',
       Publish ''home/status'' ''update:1'' 0 True, Sleep 1,
       Log DEBUG ''in loop: after sleep'',
       Log DEBUG ''received SIGINT'', Publish ''home/status'' ''goodbye'' 0 True,
       Disconnect, Log INFO ''--> clean exit''], SystemExit 0)"
proof -
  let ?self = "fst (MqttClient_init ''h'' 1883 ''u'' ''p'' ''disc'' ''home'' 1)"
  have one: "str_int 1 = ''1''"
    by code_simp
  have pre: "run_loop ?self [Active_count 2] =
     (?self\<lparr>counter := 1\<rparr>,
      [Log DEBUG ''in loop: before sleep'', Log INFO ''--> regular_update'',
       Publish ''home/status'' ''update:1'' 0 True, Sleep 1,
       Log DEBUG ''in loop: after sleep''], Pending)"
    by (simp add: regular_update_def Let_def init_fields strip_slash_def endswith_slash_def one)
  from signal_handler_goodbye [of ?self SIGINT "''frame''" "[Active_count 2]"
      "?self\<lparr>counter := 1\<rparr>" _ "[Active_count 2, Active_count 2]"] pre
  show ?thesis
    by (simp add: signal_handler_def init_fields strip_slash_def endswith_slash_def)
qed

subsection \<open>Traces\<close>

lemma publishes_Cons:
  "publishes (e # es) =
     (case e of Publish t p q r \<Rightarrow> [(t, p, q, r)] | _ \<Rightarrow> []) @ publishes es"
  by (cases e) simp_all

lemma publishes_append: "publishes (xs @ ys) = publishes xs @ publishes ys"
  by (induction xs) (simp, simp add: publishes_Cons del: publishes.simps)

lemma messages_Cons:
  "messages (e # es) =
     (case e of Publish t p q r \<Rightarrow> [(t, p, q, r)] | Will_set t p q r \<Rightarrow> [(t, p, q, r)]
      | _ \<Rightarrow> []) @ messages es"
  by (cases e) simp_all

lemma messages_append: "messages (xs @ ys) = messages xs @ messages ys"
  by (induction xs) (simp, simp add: messages_Cons del: messages.simps)

lemma append_in_shuffles: "xs @ ys \<in> shuffles xs ys"
  by (induction xs) (simp_all add: Cons_in_shuffles_leftI)

lemma publishes_shuffles:
  "tr \<in> shuffles xs ys \<Longrightarrow> publishes tr \<in> shuffles (publishes xs) (publishes ys)"
proof (induction xs ys arbitrary: tr rule: shuffles.induct)
  case (1 ys)
  then show ?case by simp
next
  case (2 xs)
  then show ?case by simp
next
  case (3 x xs y ys)
  from "3.prems" consider
    (left) tr' where "tr = x # tr'" "tr' \<in> shuffles xs (y # ys)"
  | (right) tr' where "tr = y # tr'" "tr' \<in> shuffles (x # xs) ys"
    by auto
  then show ?case
  proof cases
    case left
    from "3.IH"(1) [OF left(2)] show ?thesis
      unfolding left(1) by (cases x) (simp_all add: Cons_in_shuffles_leftI)
  next
    case right
    from "3.IH"(2) [OF right(2)] show ?thesis
      unfolding right(1) by (cases y) (simp_all add: Cons_in_shuffles_rightI)
  qed
qed

lemma regular_update_fields:
  "topic_prefix (fst (regular_update self)) = topic_prefix self"
  "update_interval (fst (regular_update self)) = update_interval self"
  "discovery_topic_prefix (fst (regular_update self)) = discovery_topic_prefix self"
  by (simp_all add: regular_update_def Let_def)

lemma run_loop_Active:
  "run_loop self (Active_count n # os) =
     (if n = 1 then
        (self,
         [Log ERROR ''Only one thread running, should be at least two -> exiting.''],
         SystemExit 1)
      else
        (fst (run_loop (fst (regular_update self)) os),
         [Log DEBUG ''in loop: before sleep''] @ snd (regular_update self) @
         [Sleep (update_interval self), Log DEBUG ''in loop: after sleep''] @
         fst (snd (run_loop (fst (regular_update self)) os)),
         snd (snd (run_loop (fst (regular_update self)) os))))"
  by (simp add: regular_update_def Let_def split: prod.splits)

lemma run_loop_Sigint:
  "run_loop self (Sigint # os) = (self, fst (signal_handler self SIGINT ''frame''), SystemExit 0)"
  by (simp add: signal_handler_def)

lemma run_loop_topic_prefix:
  "topic_prefix (fst (run_loop self os)) = topic_prefix self"
proof (induction os arbitrary: self)
  case Nil
  show ?case by simp
next
  case (Cons x os)
  show ?case
    by (cases x) (simp_all add: run_loop_Active run_loop_Sigint Cons.IH regular_update_fields
        del: run_loop.simps)
qed

text \<open>The loop never lowers the counter.\<close>

lemma run_loop_counter: "counter self \<le> counter (fst (run_loop self os))"
proof (induction os arbitrary: self)
  case Nil
  show ?case by simp
next
  case (Cons x os)
  have "counter self \<le> counter (fst (regular_update self))"
    by (simp add: regular_update_def Let_def)
  also have "\<dots> \<le> counter (fst (run_loop (fst (regular_update self)) os))"
    by (rule Cons.IH)
  finally show ?case
    by (cases x) (simp_all add: run_loop_Active run_loop_Sigint del: run_loop.simps)
qed

lemma run_loop_no_online:
  "filter (\<lambda>x. fst (snd x) = ''online'') (publishes (fst (snd (run_loop self os)))) = []"
proof (induction os arbitrary: self)
  case Nil
  show ?case by simp
next
  case (Cons x os)
  show ?case
    by (cases x)
       (simp_all add: run_loop_Active run_loop_Sigint Cons.IH publishes_append
          regular_update_def Let_def signal_handler_def del: run_loop.simps)
qed

subsection \<open>One iteration of the loop\<close>

text \<open>
  C7. Take the loop still running after the observations \<open>before\<close>. At its next
  iteration, when \<open>threading.active_count()\<close> is 1 the loop logs an error and ends by
  \<open>sys.exit(1)\<close> without any publish; otherwise it calls \<open>regular_update\<close> (one log
  line and the publish of the next update), then sleeps \<open>update_interval\<close> seconds, and
  only then goes on with the following iteration.
\<close>

theorem run_loop_iteration:
  "run_loop self before = (s, ev, Pending) \<Longrightarrow>
   run_loop self (before @ Active_count n # os) =
     (if n = 1 then
        (s, ev @ [Log ERROR ''Only one thread running, should be at least two -> exiting.''],
         SystemExit 1)
      else
        (fst (run_loop (s\<lparr>counter := counter s + 1\<rparr>) os),
         ev @ [Log DEBUG ''in loop: before sleep''] @ snd (regular_update s) @
              [Sleep (update_interval s), Log DEBUG ''in loop: after sleep''] @
              fst (snd (run_loop (s\<lparr>counter := counter s + 1\<rparr>) os)),
         snd (snd (run_loop (s\<lparr>counter := counter s + 1\<rparr>) os))))
   \<and> snd (regular_update s) =
       [Log INFO ''--> regular_update'',
        Publish (topic_prefix s @ ''/status'') (''update:'' @ str_int (counter s + 1)) 0 True]
   \<and> publishes [Log ERROR ''Only one thread running, should be at least two -> exiting.''] = []"
  by (simp add: run_loop_append regular_update_def Let_def split: prod.splits)

theorem run_loop_iteration_witness:
  "run_loop (fst (MqttClient_init ''h'' 1883 ''u'' ''p'' ''disc'' ''home'' 5)) [] =
     (fst (MqttClient_init ''h'' 1883 ''u'' ''p'' ''disc'' ''home'' 5), [], Pending)
   \<and> run_loop (fst (MqttClient_init ''h'' 1883 ''u'' ''p'' ''disc'' ''home'' 5))
        ([] @ Active_count 2 # [Active_count 1]) =
     (fst (MqttClient_init ''h'' 1883 ''u'' ''p'' ''disc'' ''home'' 5)\<lparr>counter := 1\<rparr>,
      [Log DEBUG ''in loop: before sleep'', Log INFO ''--> regular_update'',
       Publish ''home/status'' ''update:1'' 0 True, Sleep 5,
       Log DEBUG ''in loop: after sleep'',
       Log ERROR ''Only one thread running, should be at least two -> exiting.''],
      SystemExit 1)"
proof -
  let ?self = "fst (MqttClient_init ''h'' 1883 ''u'' ''p'' ''disc'' ''home'' 5)"
  have one: "str_int 1 = ''1''"
    by code_simp
  have pre: "run_loop ?self [] = (?self, [], Pending)"
    by simp
  from run_loop_iteration [OF pre, of 2 "[Active_count 1]"] pre
  show ?thesis
    by (simp add: init_fields strip_slash_def endswith_slash_def one)
qed

subsection \<open>The version option\<close>

text \<open>
  C6. With the version option set, the program prints the version string and ends with
  exit code 0, whatever the other options hold (also when they would not convert): no
  client is built and no connection is opened.
\<close>

theorem version_short_circuits:
  "opt_version opts = Some True \<Longrightarrow>
   typer_run conv opts cerr os = ([Print ''My Service Start Version: 0.1.0''], SystemExit 0)
   \<and> Client_new \<notin> set (fst (typer_run conv opts cerr os))
   \<and> filter is_connect (fst (typer_run conv opts cerr os)) = []"
  by (simp add: typer_run_def version_callback_def version_def)

theorem version_short_circuits_witness:
  "opt_version \<lparr>opt_mqtt_host = ''h'', opt_mqtt_port = ''not a number'', opt_mqtt_user = ''u'',
       opt_mqtt_password = ''p'', opt_discovery_topic_prefix = ''disc'',
       opt_topic_prefix = ''home'', opt_update_interval = ''300'', opt_debug = False,
       opt_version = Some True\<rparr> = Some True
   \<and> typer_run (\<lambda>s. None)
       \<lparr>opt_mqtt_host = ''h'', opt_mqtt_port = ''not a number'', opt_mqtt_user = ''u'',
        opt_mqtt_password = ''p'', opt_discovery_topic_prefix = ''disc'',
        opt_topic_prefix = ''home'', opt_update_interval = ''300'', opt_debug = False,
        opt_version = Some True\<rparr> None [Active_count 2] =
     ([Print ''My Service Start Version: 0.1.0''], SystemExit 0)"
  using version_short_circuits [of
       "\<lparr>opt_mqtt_host = ''h'', opt_mqtt_port = ''not a number'', opt_mqtt_user = ''u'',
        opt_mqtt_password = ''p'', opt_discovery_topic_prefix = ''disc'',
        opt_topic_prefix = ''home'', opt_update_interval = ''300'', opt_debug = False,
        opt_version = Some True\<rparr>" "\<lambda>s. None" None "[Active_count 2]"]
  by simp

subsection \<open>The last will\<close>

text \<open>
  C8. The constructor registers the last will \<open>offline\<close> on the stored (normalised) topic
  prefix followed by \<open>/status\<close>, with QoS 0 and retained. It opens no connection: in the
  program the first \<open>connect\<close> comes after all the constructor's events and the settings
  lines of \<open>run\<close>.
\<close>

theorem init_will:
  "(let self = fst (MqttClient_init h p u pw d t i);
        ev = snd (MqttClient_init h p u pw d t i) in
      ev = [Signal_register, Client_new, On_connect_set, On_disconnect_set,
            Username_pw_set u pw,
            Will_set (topic_prefix self @ ''/status'') ''offline'' 0 True]
      \<and> topic_prefix self = strip_slash t
      \<and> wills ev = [(strip_slash t @ ''/status'', ''offline'', 0, True)]
      \<and> filter is_connect ev = []
      \<and> takeWhile (\<lambda>e. \<not> is_connect e) (fst (main h p u pw d t i dbg cerr os)) =
          Set_level (if dbg then DEBUG else INFO) # ev @ run_settings self)"
  by (simp add: MqttClient_init_def main_def run_def Let_def run_settings_def
      split: prod.splits option.splits)

subsection \<open>The callback and the loop\<close>

lemma on_connect_online_count:
  "rc_value rc = 0 \<Longrightarrow>
   filter (\<lambda>x. fst (snd x) = ''online'')
     (publishes (fst (on_connect self client userdata flags rc properties))) =
     [(topic_prefix self @ ''/status'', ''online'', 0, True)]"
  by (simp add: on_connect_def publish_discovery_def)

lemma run_then_callback_interleaving:
  "fst (snd (run self None os)) @ bg \<in> interleavings self os bg"
proof -
  let ?fg = "Log DEBUG ''before loop'' # fst (snd (run_loop self os))"
  have "?fg @ bg \<in> shuffles ?fg bg"
    by (rule append_in_shuffles)
  then show ?thesis
    unfolding interleavings_def
    by (intro image_eqI [where x = "?fg @ bg"]) (simp_all add: run_def Let_def split: prod.splits)
qed

text \<open>
  C9, as the claim states it: in every interleaving the \<open>online\<close> publish comes before
  any update. \<open>run\<close> goes from \<open>loop_start\<close> straight into its first iteration and does
  not wait for the callback: the run in which the first iteration is over before the
  callback starts is an interleaving, and it publishes \<open>update:1\<close> before \<open>online\<close>.
\<close>

theorem update_may_precede_online:
  "fst (snd (run (fst (MqttClient_init ''h'' 1883 ''u'' ''p'' ''disc'' ''home'' 1)) None
               [Active_count 2])) @
   fst (on_connect (fst (MqttClient_init ''h'' 1883 ''u'' ''p'' ''disc'' ''home'' 1))
          ''client'' ''None'' ''flags'' \<lparr>rc_value = 0, rc_str = ''Success''\<rparr> ''[]'')
     \<in> interleavings (fst (MqttClient_init ''h'' 1883 ''u'' ''p'' ''disc'' ''home'' 1))
          [Active_count 2]
          (fst (on_connect (fst (MqttClient_init ''h'' 1883 ''u'' ''p'' ''disc'' ''home'' 1))
             ''client'' ''None'' ''flags'' \<lparr>rc_value = 0, rc_str = ''Success''\<rparr> ''[]''))
   \<and> publishes
       (fst (snd (run (fst (MqttClient_init ''h'' 1883 ''u'' ''p'' ''disc'' ''home'' 1)) None
                    [Active_count 2])) @
        fst (on_connect (fst (MqttClient_init ''h'' 1883 ''u'' ''p'' ''disc'' ''home'' 1))
               ''client'' ''None'' ''flags'' \<lparr>rc_value = 0, rc_str = ''Success''\<rparr> ''[]''))
      = [(''home/status'', ''update:1'', 0, True), (''home/status'', ''online'', 0, True)]
   \<and> \<not> once_before_updates (''home/status'', ''online'', 0, True)
       (fst (snd (run (fst (MqttClient_init ''h'' 1883 ''u'' ''p'' ''disc'' ''home'' 1)) None
                    [Active_count 2])) @
        fst (on_connect (fst (MqttClient_init ''h'' 1883 ''u'' ''p'' ''disc'' ''home'' 1))
               ''client'' ''None'' ''flags'' \<lparr>rc_value = 0, rc_str = ''Success''\<rparr> ''[]''))"
proof -
  let ?self = "fst (MqttClient_init ''h'' 1883 ''u'' ''p'' ''disc'' ''home'' 1)"
  let ?bg = "fst (on_connect ?self ''client'' ''None'' ''flags''
                    \<lparr>rc_value = 0, rc_str = ''Success''\<rparr> ''[]'')"
  let ?fg = "Log DEBUG ''before loop'' # fst (snd (run_loop ?self [Active_count 2]))"
  let ?start = "run_settings ?self @ [Connect (mqtt_host ?self) (mqtt_port ?self) 60, Loop_start]"
  have one: "str_int 1 = ''1''"
    by code_simp
  have r: "fst (snd (run ?self None [Active_count 2])) = ?start @ ?fg"
    by (simp add: run_def Let_def split: prod.splits)
  have m: "fst (snd (run ?self None [Active_count 2])) @ ?bg
      \<in> interleavings ?self [Active_count 2] ?bg"
    by (rule run_then_callback_interleaving)
  have p: "publishes (fst (snd (run ?self None [Active_count 2])) @ ?bg) =
      [(''home/status'', ''update:1'', 0, True), (''home/status'', ''online'', 0, True)]"
    by (simp add: r publishes_append run_settings_def regular_update_def Let_def
        on_connect_def publish_discovery_def init_fields strip_slash_def endswith_slash_def one)
  have n: "\<not> once_before_updates (''home/status'', ''online'', 0, True)
      (fst (snd (run ?self None [Active_count 2])) @ ?bg)"
    unfolding once_before_updates_def p by (simp add: is_update_payload_def)
  from m p n show ?thesis by blast
qed

text \<open>
  C9, amended. After a successful connect the callback publishes \<open>online\<close> to the stored
  topic prefix followed by \<open>/status\<close>, QoS 0, retained, and in every interleaving of
  the foreground loop with the callback this is the only publish of \<open>online\<close>. Its
  place among the periodic updates is not fixed.
\<close>

theorem online_once_in_every_interleaving:
  "rc_value rc = 0 \<Longrightarrow>
   \<forall>tr \<in> interleavings self os (fst (on_connect self client userdata flags rc properties)).
     length (filter (\<lambda>x. fst (snd x) = ''online'') (publishes tr)) = 1
     \<and> filter (\<lambda>x. fst (snd x) = ''online'') (publishes tr) =
         [(topic_prefix self @ ''/status'', ''online'', 0, True)]"
proof
  fix tr
  let ?bg = "fst (on_connect self client userdata flags rc properties)"
  let ?fg = "Log DEBUG ''before loop'' # fst (snd (run_loop self os))"
  let ?P = "\<lambda>x :: string \<times> string \<times> nat \<times> bool. fst (snd x) = ''online''"
  assume rc: "rc_value rc = 0" and tr: "tr \<in> interleavings self os ?bg"
  then obtain t where t: "t \<in> shuffles ?fg ?bg"
    and tr_eq: "tr = run_settings self @
          [Connect (mqtt_host self) (mqtt_port self) 60, Loop_start] @ t"
    unfolding interleavings_def by blast
  have start: "publishes (run_settings self @
          [Connect (mqtt_host self) (mqtt_port self) 60, Loop_start]) = []"
    by (simp add: run_settings_def)
  have pt: "publishes tr = publishes t"
    using start by (simp add: tr_eq publishes_append)
  have fg0: "filter ?P (publishes ?fg) = []"
    by (simp add: run_loop_no_online)
  have bg1: "filter ?P (publishes ?bg) = [(topic_prefix self @ ''/status'', ''online'', 0, True)]"
    using rc by (rule on_connect_online_count)
  have "publishes t \<in> shuffles (publishes ?fg) (publishes ?bg)"
    using t by (rule publishes_shuffles)
  then have "filter ?P (publishes t) \<in> filter ?P ` shuffles (publishes ?fg) (publishes ?bg)"
    by (rule imageI)
  then have "filter ?P (publishes t) \<in>
      shuffles (filter ?P (publishes ?fg)) (filter ?P (publishes ?bg))"
    by (simp only: filter_shuffles)
  then have "filter ?P (publishes t) = [(topic_prefix self @ ''/status'', ''online'', 0, True)]"
    by (simp only: fg0 bg1 shuffles.simps singleton_iff)
  then show "length (filter ?P (publishes tr)) = 1
     \<and> filter ?P (publishes tr) = [(topic_prefix self @ ''/status'', ''online'', 0, True)]"
    by (simp add: pt)
qed

theorem online_once_in_every_interleaving_witness:
  "rc_value \<lparr>rc_value = 0, rc_str = ''Success''\<rparr> = 0
   \<and> fst (snd (run (fst (MqttClient_init ''h'' 1883 ''u'' ''p'' ''disc'' ''home'' 1)) None
               [Active_count 2])) @
     fst (on_connect (fst (MqttClient_init ''h'' 1883 ''u'' ''p'' ''disc'' ''home'' 1))
          ''client'' ''None'' ''flags'' \<lparr>rc_value = 0, rc_str = ''Success''\<rparr> ''[]'')
     \<in> interleavings (fst (MqttClient_init ''h'' 1883 ''u'' ''p'' ''disc'' ''home'' 1))
          [Active_count 2]
          (fst (on_connect (fst (MqttClient_init ''h'' 1883 ''u'' ''p'' ''disc'' ''home'' 1))
             ''client'' ''None'' ''flags'' \<lparr>rc_value = 0, rc_str = ''Success''\<rparr> ''[]''))
   \<and> filter (\<lambda>x. fst (snd x) = ''online'')
       (publishes
         (fst (snd (run (fst (MqttClient_init ''h'' 1883 ''u'' ''p'' ''disc'' ''home'' 1)) None
               [Active_count 2])) @
          fst (on_connect (fst (MqttClient_init ''h'' 1883 ''u'' ''p'' ''disc'' ''home'' 1))
            ''client'' ''None'' ''flags'' \<lparr>rc_value = 0, rc_str = ''Success''\<rparr> ''[]'')))
     = [(''home/status'', ''online'', 0, True)]"
proof -
  let ?self = "fst (MqttClient_init ''h'' 1883 ''u'' ''p'' ''disc'' ''home'' 1)"
  let ?rc = "\<lparr>rc_value = 0, rc_str = ''Success''\<rparr>"
  let ?bg = "fst (on_connect ?self ''client'' ''None'' ''flags'' ?rc ''[]'')"
  have rc: "rc_value ?rc = 0"
    by simp
  have m: "fst (snd (run ?self None [Active_count 2])) @ ?bg
      \<in> interleavings ?self [Active_count 2] ?bg"
    by (rule run_then_callback_interleaving)
  from online_once_in_every_interleaving [OF rc, of ?self "[Active_count 2]"
      "''client''" "''None''" "''flags''" "''[]''"] m
  have "filter (\<lambda>x. fst (snd x) = ''online'')
       (publishes (fst (snd (run ?self None [Active_count 2])) @ ?bg))
     = [(topic_prefix ?self @ ''/status'', ''online'', 0, True)]"
    by blast
  with rc m show ?thesis
    by (simp add: init_fields strip_slash_def endswith_slash_def)
qed

subsection \<open>One topic\<close>

lemma messages_run_settings: "messages (run_settings self) = []"
  by (simp add: run_settings_def)

lemma run_loop_messages_topic:
  "list_all (\<lambda>m. fst m = topic_prefix self @ ''/status'')
     (messages (fst (snd (run_loop self os))))"
proof (induction os arbitrary: self)
  case Nil
  show ?case by simp
next
  case (Cons x os)
  have "list_all (\<lambda>m. fst m = topic_prefix self @ ''/status'')
     (messages (fst (snd (run_loop (fst (regular_update self)) os))))"
    using Cons.IH [of "fst (regular_update self)"] by (simp add: regular_update_fields)
  then show ?case
    by (cases x)
       (simp_all add: run_loop_Active run_loop_Sigint messages_append
          regular_update_def Let_def signal_handler_def del: run_loop.simps)
qed

lemma run_loop_discovery_independent:
  "messages (fst (snd (run_loop (self\<lparr>discovery_topic_prefix := x\<rparr>) os))) =
   messages (fst (snd (run_loop self os)))"
proof (induction os arbitrary: self)
  case Nil
  show ?case by simp
next
  case (Cons a os)
  have ru: "fst (regular_update (self\<lparr>discovery_topic_prefix := x\<rparr>)) =
      (fst (regular_update self))\<lparr>discovery_topic_prefix := x\<rparr>"
    by (simp add: regular_update_def Let_def)
  have ev: "snd (regular_update (self\<lparr>discovery_topic_prefix := x\<rparr>)) = snd (regular_update self)"
    by (simp add: regular_update_def Let_def)
  show ?case
    by (cases a)
       (simp_all add: run_loop_Active run_loop_Sigint messages_append ru ev Cons.IH
          signal_handler_def del: run_loop.simps)
qed

lemma run_messages:
  "messages (fst (snd (run self cerr os))) =
     (case cerr of Some e \<Rightarrow> [] | None \<Rightarrow> messages (fst (snd (run_loop self os))))"
  by (simp add: run_def Let_def messages_append messages_run_settings
      split: option.splits prod.splits)

lemma main_messages:
  "messages (fst (main h p u pw d t i dbg cerr os)) =
     (strip_slash t @ ''/status'', ''offline'', 0, True) #
     messages (fst (snd (run (fst (MqttClient_init h p u pw d t i)) cerr os)))"
  by (simp add: main_def MqttClient_init_def messages_append split: prod.splits)

lemma init_discovery:
  "fst (MqttClient_init h p u pw d' t i) =
   (fst (MqttClient_init h p u pw d t i))\<lparr>discovery_topic_prefix := strip_slash d'\<rparr>"
  by (simp add: MqttClient_init_def)

text \<open>
  C10. Every message handed to the broker client (the last will of the constructor,
  \<open>online\<close> of the connect callback, the updates, \<open>goodbye\<close> of the interrupt handler,
  and so every message of \<open>run\<close> and of the whole program) has the topic made of the
  stored topic prefix and \<open>/status\<close>; the other methods publish nothing. The discovery
  prefix is stored and logged only: changing it changes no message.
\<close>

theorem all_messages_on_status_topic:
  "list_all (\<lambda>m. fst m = topic_prefix (fst (MqttClient_init h p u pw d t i)) @ ''/status'')
     (messages (snd (MqttClient_init h p u pw d t i)))
   \<and> list_all (\<lambda>m. fst m = topic_prefix s @ ''/status'')
       (messages (fst (on_connect s client userdata flags rc properties)))
   \<and> list_all (\<lambda>m. fst m = topic_prefix s @ ''/status'') (messages (snd (regular_update s)))
   \<and> list_all (\<lambda>m. fst m = topic_prefix s @ ''/status'')
       (messages (fst (signal_handler s sig frame)))
   \<and> list_all (\<lambda>m. fst m = topic_prefix s @ ''/status'') (messages (fst (snd (run s cerr os))))
   \<and> messages (on_disconnect s client userdata rc) = []
   \<and> messages (publish_discovery s) = []
   \<and> messages (remove_discovery s) = []
   \<and> list_all (\<lambda>m. fst m = topic_prefix (fst (MqttClient_init h p u pw d t i)) @ ''/status'')
       (messages (fst (main h p u pw d t i dbg cerr os)))
   \<and> messages (fst (main h p u pw d' t i dbg cerr os)) =
       messages (fst (main h p u pw d t i dbg cerr os))
   \<and> messages (fst (on_connect (s\<lparr>discovery_topic_prefix := d'\<rparr>) client userdata flags rc
                      properties)) =
       messages (fst (on_connect s client userdata flags rc properties))"
proof -
  let ?self = "fst (MqttClient_init h p u pw d t i)"
  have a: "list_all (\<lambda>m. fst m = topic_prefix ?self @ ''/status'')
     (messages (snd (MqttClient_init h p u pw d t i)))"
    by (simp add: MqttClient_init_def)
  have b: "list_all (\<lambda>m. fst m = topic_prefix s @ ''/status'')
       (messages (fst (on_connect s client userdata flags rc properties)))"
    by (simp add: on_connect_def publish_discovery_def Let_def)
  have c: "list_all (\<lambda>m. fst m = topic_prefix s @ ''/status'') (messages (snd (regular_update s)))"
    by (simp add: regular_update_def Let_def)
  have e: "list_all (\<lambda>m. fst m = topic_prefix s @ ''/status'')
       (messages (fst (signal_handler s sig frame)))"
    by (simp add: signal_handler_def)
  have f: "list_all (\<lambda>m. fst m = topic_prefix s' @ ''/status'')
      (messages (fst (snd (run s' cerr os))))" for s'
    by (simp add: run_messages run_loop_messages_topic split: option.splits)
  have g: "messages (on_disconnect s client userdata rc) = []"
    "messages (publish_discovery s) = []" "messages (remove_discovery s) = []"
    by (simp_all add: on_disconnect_def publish_discovery_def remove_discovery_def)
  have h: "list_all (\<lambda>m. fst m = topic_prefix ?self @ ''/status'')
       (messages (fst (main h p u pw d t i dbg cerr os)))"
    using f [of ?self] by (simp add: main_messages init_fields)
  have i: "messages (fst (main h p u pw d' t i dbg cerr os)) =
       messages (fst (main h p u pw d t i dbg cerr os))"
    by (simp add: main_messages run_messages init_discovery [of h p u pw d' t i d]
        run_loop_discovery_independent split: option.splits)
  have j: "messages (fst (on_connect (s\<lparr>discovery_topic_prefix := d'\<rparr>) client userdata flags rc
                      properties)) =
       messages (fst (on_connect s client userdata flags rc properties))"
    by (simp add: on_connect_def publish_discovery_def Let_def)
  from a b c e f [of s] g h i j show ?thesis
    by blast
qed

end
